theory Spec2Isabelle
  imports Main
begin

section \<open>The request handlers of src/app.py\<close>

text \<open>
  The service is three FastAPI handlers over the \<^verbatim>\<open>chess\<close> package. Every call builds its
  own board from the request. The package is not part of the repository, so the handlers
  are modelled over a record of the operations they call.
\<close>

subsection \<open>Requests, responses, errors\<close>

record MoveRequest =
  fen :: string
  move :: string

record FenRequest =
  fen :: string

text \<open>The values that occur in the handlers' dict literals.\<close>

datatype json = JBool bool | JStr string | JList "string list"

text \<open>A response body is a dict literal: the keys in the order they are written.\<close>

type_synonym response = "(string \<times> json) list"

text \<open>
  An exception that leaves a handler. \<^verbatim>\<open>chess.Board(fen)\<close> raises \<^verbatim>\<open>ValueError\<close> on a string
  it cannot parse; the web framework answers such a request with a server error.
\<close>

datatype error = ValueError

subsection \<open>The operations the handlers call\<close>

text \<open>
  How a call that mutates its object ends: it returns, or it raises; either way it leaves
  the object in some state.
\<close>

datatype 'b outcome = Returned 'b | Raised 'b

text \<open>
  One field for each call of the package in src/app.py, over a type \<open>'b\<close> of board values
  and a type \<open>'m\<close> of moves. A call that can raise returns \<open>None\<close> for the exception.
  \<^item> \<open>lib_Board\<close>: \<^verbatim>\<open>chess.Board(fen)\<close>
  \<^item> \<open>lib_new_board\<close>: \<^verbatim>\<open>chess.Board()\<close>
  \<^item> \<open>lib_from_uci\<close>: \<^verbatim>\<open>chess.Move.from_uci(s)\<close>
  \<^item> \<open>lib_is_legal\<close>: the test \<^verbatim>\<open>move in board.legal_moves\<close>. It is an operation of its
    own (the \<^verbatim>\<open>__contains__\<close> of the legal-move view), not a search of the moves that
    iterating the view yields.
  \<^item> \<open>lib_legal_moves\<close>: iterating \<^verbatim>\<open>board.legal_moves\<close>
  \<^item> \<open>lib_push\<close>: \<^verbatim>\<open>board.push(move)\<close>, which changes the board in place: the state it
    leaves the board in, and whether it returned or raised
  \<^item> \<open>lib_fen\<close>: \<^verbatim>\<open>board.fen()\<close>, which raises when a counter of the board is too long
    to be printed
  \<^item> \<open>lib_uci\<close>: \<^verbatim>\<open>move.uci()\<close>
  \<^item> \<open>lib_is_check\<close>, \<open>lib_is_checkmate\<close>, \<open>lib_is_stalemate\<close>, \<open>lib_is_game_over\<close>:
    the four queries of the board.
\<close>

record ('b, 'm) chess_lib =
  lib_Board :: "string \<Rightarrow> 'b option"
  lib_new_board :: "'b"
  lib_from_uci :: "string \<Rightarrow> 'm option"
  lib_is_legal :: "'b \<Rightarrow> 'm \<Rightarrow> bool"
  lib_legal_moves :: "'b \<Rightarrow> 'm list"
  lib_push :: "'b \<Rightarrow> 'm \<Rightarrow> 'b outcome"
  lib_fen :: "'b \<Rightarrow> string option"
  lib_uci :: "'m \<Rightarrow> string"
  lib_is_check :: "'b \<Rightarrow> bool"
  lib_is_checkmate :: "'b \<Rightarrow> bool"
  lib_is_stalemate :: "'b \<Rightarrow> bool"
  lib_is_game_over :: "'b \<Rightarrow> bool"

subsection \<open>POST /move\<close>

text \<open>
  \<^verbatim>\<open>make_move\<close>, src/app.py lines 29-56. The board is built before the \<^verbatim>\<open>try\<close>, so its
  \<^verbatim>\<open>ValueError\<close> leaves the handler. The \<^verbatim>\<open>try\<close> spans lines 33-45: \<^verbatim>\<open>from_uci\<close>, the
  legality test, \<^verbatim>\<open>board.push\<close> and the first dict literal with its \<^verbatim>\<open>board.fen()\<close>. Whatever
  is raised there is swallowed by \<^verbatim>\<open>except Exception: pass\<close>, and control reaches the final
  \<^verbatim>\<open>return\<close>, as it does when the move fails the legality test.

  \<^verbatim>\<open>board.push\<close> changes the one board object of the call. So the first dict is computed
  on the board after the move; and the final \<^verbatim>\<open>return\<close>, which reads the same object, is
  computed on the board as parsed when nothing was pushed, and on the board as \<^verbatim>\<open>push\<close>
  left it when the exception came after the call of \<^verbatim>\<open>push\<close>. The argument \<open>board\<close> of
  \<open>final_return\<close> is that state of the object.
\<close>

definition final_return :: "('b, 'm) chess_lib \<Rightarrow> MoveRequest \<Rightarrow> 'b \<Rightarrow> response" where
  "final_return L req board =
     [(''fen'', JStr (MoveRequest.fen req)),
      (''valid'', JBool False),
      (''legal_moves'', JList (map (lib_uci L) (lib_legal_moves L board))),
      (''is_check'', JBool (lib_is_check L board)),
      (''is_checkmate'', JBool (lib_is_checkmate L board)),
      (''is_stalemate'', JBool (lib_is_stalemate L board)),
      (''is_game_over'', JBool (lib_is_game_over L board))]"

definition make_move :: "('b, 'm) chess_lib \<Rightarrow> MoveRequest \<Rightarrow> error + response" where
  "make_move L req =
     (case lib_Board L (MoveRequest.fen req) of
        None \<Rightarrow> Inl ValueError
      | Some board \<Rightarrow>
          (case lib_from_uci L (move req) of
             None \<Rightarrow> Inr (final_return L req board)
           | Some mv \<Rightarrow>
               if lib_is_legal L board mv then
                 (case lib_push L board mv of
                    Raised left \<Rightarrow> Inr (final_return L req left)
                  | Returned pushed \<Rightarrow>
                      (case lib_fen L pushed of
                         None \<Rightarrow> Inr (final_return L req pushed)
                       | Some new_fen \<Rightarrow>
                           Inr [(''fen'', JStr new_fen),
                                (''valid'', JBool True),
                                (''legal_moves'', JList (map (lib_uci L) (lib_legal_moves L pushed))),
                                (''is_check'', JBool (lib_is_check L pushed)),
                                (''is_checkmate'', JBool (lib_is_checkmate L pushed)),
                                (''is_stalemate'', JBool (lib_is_stalemate L pushed)),
                                (''is_game_over'', JBool (lib_is_game_over L pushed))]))
               else Inr (final_return L req board)))"

subsection \<open>POST /fen\<close>

text \<open>
  \<^verbatim>\<open>get_fen_info\<close>, src/app.py lines 59-73. Here the board is built inside the \<^verbatim>\<open>try\<close>, and
  the \<^verbatim>\<open>except\<close> returns the two-key dict.
\<close>

definition get_fen_info :: "('b, 'm) chess_lib \<Rightarrow> FenRequest \<Rightarrow> error + response" where
  "get_fen_info L req =
     (case lib_Board L (FenRequest.fen req) of
        Some board \<Rightarrow>
          Inr [(''valid'', JBool True),
               (''legal_moves'', JList (map (lib_uci L) (lib_legal_moves L board))),
               (''is_check'', JBool (lib_is_check L board)),
               (''is_checkmate'', JBool (lib_is_checkmate L board)),
               (''is_stalemate'', JBool (lib_is_stalemate L board)),
               (''is_game_over'', JBool (lib_is_game_over L board))]
      | None \<Rightarrow> Inr [(''valid'', JBool False), (''error'', JStr ''Invalid FEN'')])"

subsection \<open>GET /reset\<close>

text \<open>
  \<^verbatim>\<open>reset_game\<close>, src/app.py lines 76-87. The four flags are the literal \<^verbatim>\<open>False\<close>. There is
  no \<^verbatim>\<open>try\<close>: an exception of \<^verbatim>\<open>board.fen()\<close> would leave the handler.
\<close>

definition reset_game :: "('b, 'm) chess_lib \<Rightarrow> error + response" where
  "reset_game L =
     (let board = lib_new_board L
      in case lib_fen L board of
           None \<Rightarrow> Inl ValueError
         | Some start_fen \<Rightarrow>
             Inr [(''fen'', JStr start_fen),
                  (''legal_moves'', JList (map (lib_uci L) (lib_legal_moves L board))),
                  (''is_check'', JBool False),
                  (''is_checkmate'', JBool False),
                  (''is_stalemate'', JBool False),
                  (''is_game_over'', JBool False)])"

text \<open>
  The same handler with the four flags asked of the board it has just built, as the other
  two handlers do.
\<close>

definition reset_game_computed :: "('b, 'm) chess_lib \<Rightarrow> error + response" where
  "reset_game_computed L =
     (let board = lib_new_board L
      in case lib_fen L board of
           None \<Rightarrow> Inl ValueError
         | Some start_fen \<Rightarrow>
             Inr [(''fen'', JStr start_fen),
                  (''legal_moves'', JList (map (lib_uci L) (lib_legal_moves L board))),
                  (''is_check'', JBool (lib_is_check L board)),
                  (''is_checkmate'', JBool (lib_is_checkmate L board)),
                  (''is_stalemate'', JBool (lib_is_stalemate L board)),
                  (''is_game_over'', JBool (lib_is_game_over L board))])"

subsection \<open>The handlers over the objects of the process\<close>

text \<open>
  What a request could leave behind for the next one is an object. The module of src/app.py
  has one global beside the classes and the handlers, \<^verbatim>\<open>app\<close>, and no handler assigns to it
  or to an attribute of it; the objects a handler makes are the boards. So the state of the
  process between two requests is the boards made so far: a list, a board's address being
  its index. \<^verbatim>\<open>chess.Board(...)\<close> adds an object; \<^verbatim>\<open>board.push\<close> overwrites the object it is
  called on; every other call reads the object through the local name \<^verbatim>\<open>board\<close>.

  Each handler below takes the objects as they are when the request arrives and returns
  its result with the objects as it leaves them.
\<close>

type_synonym 'b objects = "'b list"

definition new_object :: "'b \<Rightarrow> 'b objects \<Rightarrow> nat \<times> 'b objects" where
  "new_object b objs = (length objs, objs @ [b])"

definition final_return_at :: "('b, 'm) chess_lib \<Rightarrow> MoveRequest \<Rightarrow> nat \<Rightarrow> 'b objects \<Rightarrow> response" where
  "final_return_at L req board objs =
     [(''fen'', JStr (MoveRequest.fen req)),
      (''valid'', JBool False),
      (''legal_moves'', JList (map (lib_uci L) (lib_legal_moves L (objs ! board)))),
      (''is_check'', JBool (lib_is_check L (objs ! board))),
      (''is_checkmate'', JBool (lib_is_checkmate L (objs ! board))),
      (''is_stalemate'', JBool (lib_is_stalemate L (objs ! board))),
      (''is_game_over'', JBool (lib_is_game_over L (objs ! board)))]"

definition make_move_at ::
  "('b, 'm) chess_lib \<Rightarrow> MoveRequest \<Rightarrow> 'b objects \<Rightarrow> (error + response) \<times> 'b objects" where
  "make_move_at L req objs =
     (case lib_Board L (MoveRequest.fen req) of
        None \<Rightarrow> (Inl ValueError, objs)
      | Some parsed \<Rightarrow>
          (let (board, objs1) = new_object parsed objs
           in case lib_from_uci L (move req) of
                None \<Rightarrow> (Inr (final_return_at L req board objs1), objs1)
              | Some mv \<Rightarrow>
                  if lib_is_legal L (objs1 ! board) mv then
                    (case lib_push L (objs1 ! board) mv of
                       Raised left \<Rightarrow>
                         (let objs2 = objs1[board := left]
                          in (Inr (final_return_at L req board objs2), objs2))
                     | Returned pushed \<Rightarrow>
                         (let objs2 = objs1[board := pushed]
                          in case lib_fen L (objs2 ! board) of
                               None \<Rightarrow> (Inr (final_return_at L req board objs2), objs2)
                             | Some new_fen \<Rightarrow>
                                 (Inr [(''fen'', JStr new_fen),
                                       (''valid'', JBool True),
                                       (''legal_moves'',
                                        JList (map (lib_uci L) (lib_legal_moves L (objs2 ! board)))),
                                       (''is_check'', JBool (lib_is_check L (objs2 ! board))),
                                       (''is_checkmate'', JBool (lib_is_checkmate L (objs2 ! board))),
                                       (''is_stalemate'', JBool (lib_is_stalemate L (objs2 ! board))),
                                       (''is_game_over'', JBool (lib_is_game_over L (objs2 ! board)))],
                                  objs2)))
                  else (Inr (final_return_at L req board objs1), objs1)))"

definition get_fen_info_at ::
  "('b, 'm) chess_lib \<Rightarrow> FenRequest \<Rightarrow> 'b objects \<Rightarrow> (error + response) \<times> 'b objects" where
  "get_fen_info_at L req objs =
     (case lib_Board L (FenRequest.fen req) of
        Some parsed \<Rightarrow>
          (let (board, objs1) = new_object parsed objs
           in (Inr [(''valid'', JBool True),
                    (''legal_moves'', JList (map (lib_uci L) (lib_legal_moves L (objs1 ! board)))),
                    (''is_check'', JBool (lib_is_check L (objs1 ! board))),
                    (''is_checkmate'', JBool (lib_is_checkmate L (objs1 ! board))),
                    (''is_stalemate'', JBool (lib_is_stalemate L (objs1 ! board))),
                    (''is_game_over'', JBool (lib_is_game_over L (objs1 ! board)))],
               objs1))
      | None \<Rightarrow> (Inr [(''valid'', JBool False), (''error'', JStr ''Invalid FEN'')], objs))"

definition reset_game_at :: "('b, 'm) chess_lib \<Rightarrow> 'b objects \<Rightarrow> (error + response) \<times> 'b objects" where
  "reset_game_at L objs =
     (let (board, objs1) = new_object (lib_new_board L) objs
      in case lib_fen L (objs1 ! board) of
           None \<Rightarrow> (Inl ValueError, objs1)
         | Some start_fen \<Rightarrow>
             (Inr [(''fen'', JStr start_fen),
                   (''legal_moves'', JList (map (lib_uci L) (lib_legal_moves L (objs1 ! board)))),
                   (''is_check'', JBool False),
                   (''is_checkmate'', JBool False),
                   (''is_stalemate'', JBool False),
                   (''is_game_over'', JBool False)],
              objs1))"

text \<open>
  The three routes of the application object, and a client's requests served one after
  the other by one process, each on the objects its predecessors left.
\<close>

datatype request = PostMove MoveRequest | PostFen FenRequest | GetReset

fun handle ::
  "('b, 'm) chess_lib \<Rightarrow> request \<Rightarrow> 'b objects \<Rightarrow> (error + response) \<times> 'b objects" where
  "handle L (PostMove req) objs = make_move_at L req objs"
| "handle L (PostFen req) objs = get_fen_info_at L req objs"
| "handle L GetReset objs = reset_game_at L objs"

fun serve ::
  "('b, 'm) chess_lib \<Rightarrow> request list \<Rightarrow> 'b objects \<Rightarrow> (error + response) list \<times> 'b objects" where
  "serve L [] objs = ([], objs)"
| "serve L (rq # rqs) objs =
     (let (r, objs1) = handle L rq objs;
          (rs, objs2) = serve L rqs objs1
      in (r # rs, objs2))"


section \<open>The rules engine\<close>

text \<open>
  Modelled from the spec: the rules engine, the \<^verbatim>\<open>chess\<close> package that src/app.py imports,
  is not in src/. The spec names what it provides: parsing and printing a position, parsing
  and printing a move in coordinate notation, the legal moves, and the check, checkmate,
  stalemate and game-over queries. This section fills them in for standard chess, in the
  conventions of the package: squares are numbered from a1 = 0 to h8 = 63, moves are
  generated from the highest square down, captures of a pawn before its advances, and a
  position string is read leniently (fields after the first may be missing).

  C1 to C4 and C8 are proved for every engine. This one serves to run the handlers on
  concrete positions; C5, C7 and C10 are about it.
\<close>

subsection \<open>Boards and moves\<close>

datatype color = White | Black

fun opponent :: "color \<Rightarrow> color" where
  "opponent White = Black"
| "opponent Black = White"

datatype piece_type = Pawn | Knight | Bishop | Rook | Queen | King

datatype Piece = Piece (piece_type: piece_type) (color: color)

type_synonym square = nat

datatype Move = Move (from_square: square) (to_square: square)
  (promotion: "piece_type option") (move_drop: "piece_type option")

record position =
  squares :: "Piece option list"
  turn :: color
  castling_rights :: "square list"
  ep_square :: "square option"
  halfmove_clock :: nat
  fullmove_number :: nat

record board = position +
  move_stack :: "(position \<times> Move) list"

text \<open>
  Modelled from the spec: a board is the content of a position string (piece placement,
  side to move, castling rights as the squares of the rooks, en-passant target, the two
  counters) and the moves played on it, each with the position it was played in. A move is
  its two squares, a promotion piece and a dropped piece (coordinate notation can write a
  drop; standard chess has none).
\<close>

definition FILE_NAMES :: string where "FILE_NAMES = ''abcdefgh''"
definition RANK_NAMES :: string where "RANK_NAMES = ''12345678''"

definition SQUARE_NAMES :: "string list" where
  "SQUARE_NAMES = concat (map (\<lambda>r. map (\<lambda>f. [f, r]) FILE_NAMES) RANK_NAMES)"

fun index_of :: "'a list \<Rightarrow> 'a \<Rightarrow> nat option" where
  "index_of [] x = None"
| "index_of (y # ys) x = (if y = x then Some 0 else map_option Suc (index_of ys x))"

definition square_file :: "square \<Rightarrow> nat" where "square_file sq = sq mod 8"
definition square_rank :: "square \<Rightarrow> nat" where "square_rank sq = sq div 8"

definition square_name :: "square \<Rightarrow> string" where
  "square_name sq = [FILE_NAMES ! square_file sq, RANK_NAMES ! square_rank sq]"

definition piece_symbol :: "piece_type \<Rightarrow> char" where
  "piece_symbol pt = (case pt of Pawn \<Rightarrow> CHR ''p'' | Knight \<Rightarrow> CHR ''n'' | Bishop \<Rightarrow> CHR ''b''
                       | Rook \<Rightarrow> CHR ''r'' | Queen \<Rightarrow> CHR ''q'' | King \<Rightarrow> CHR ''k'')"

definition PIECE_TYPES :: "piece_type list" where
  "PIECE_TYPES = [Pawn, Knight, Bishop, Rook, Queen, King]"

definition piece_type_of_symbol :: "char \<Rightarrow> piece_type option" where
  "piece_type_of_symbol c = find (\<lambda>pt. piece_symbol pt = c) PIECE_TYPES"

definition is_upper :: "char \<Rightarrow> bool" where
  "is_upper c = (65 \<le> (of_char c :: nat) \<and> (of_char c :: nat) \<le> 90)"

definition to_lower :: "char \<Rightarrow> char" where
  "to_lower c = (if is_upper c then char_of (of_char c + (32::nat)) else c)"

definition to_upper :: "char \<Rightarrow> char" where
  "to_upper c = (if 97 \<le> (of_char c :: nat) \<and> (of_char c :: nat) \<le> 122 then char_of (of_char c - (32::nat)) else c)"

definition symbol :: "Piece \<Rightarrow> char" where
  "symbol p = (if color p = White then to_upper (piece_symbol (piece_type p)) else piece_symbol (piece_type p))"

definition from_symbol :: "char \<Rightarrow> Piece option" where
  "from_symbol c = map_option (\<lambda>pt. Piece pt (if is_upper c then White else Black)) (piece_type_of_symbol (to_lower c))"

definition piece_at :: "Piece option list \<Rightarrow> square \<Rightarrow> Piece option" where
  "piece_at sqs sq = (if sq < length sqs then sqs ! sq else None)"

subsection \<open>Attacks and check\<close>

text \<open>
  Modelled from the spec: which squares a piece attacks, and whether the side to move is
  in check. A step leaves the square by a number of files and ranks and stays on the board;
  a slider's ray ends on the first occupied square, which it includes.
\<close>

definition step :: "square \<Rightarrow> int \<times> int \<Rightarrow> square option" where
  "step sq d = (let f = int (square_file sq) + fst d; r = int (square_rank sq) + snd d
                in if 0 \<le> f \<and> f < 8 \<and> 0 \<le> r \<and> r < 8 then Some (nat (r * 8 + f)) else None)"

fun slide :: "Piece option list \<Rightarrow> int \<times> int \<Rightarrow> nat \<Rightarrow> square \<Rightarrow> square list" where
  "slide sqs d 0 sq = []"
| "slide sqs d (Suc n) sq =
     (case step sq d of
        None \<Rightarrow> []
      | Some t \<Rightarrow> (case piece_at sqs t of None \<Rightarrow> t # slide sqs d n t | Some p \<Rightarrow> [t]))"

definition ROOK_DIRS :: "(int \<times> int) list" where
  "ROOK_DIRS = [(0, 1), (1, 0), (-1, 0), (0, -1)]"
definition BISHOP_DIRS :: "(int \<times> int) list" where
  "BISHOP_DIRS = [(1, 1), (-1, 1), (1, -1), (-1, -1)]"
definition KING_DIRS :: "(int \<times> int) list" where
  "KING_DIRS = [(1, 1), (0, 1), (-1, 1), (1, 0), (-1, 0), (1, -1), (0, -1), (-1, -1)]"
definition KNIGHT_DIRS :: "(int \<times> int) list" where
  "KNIGHT_DIRS = [(1, 2), (-1, 2), (2, 1), (-2, 1), (2, -1), (-2, -1), (1, -2), (-1, -2)]"

definition pawn_dirs :: "color \<Rightarrow> (int \<times> int) list" where
  "pawn_dirs c = (if c = White then [(1, 1), (-1, 1)] else [(1, -1), (-1, -1)])"

definition steps :: "square \<Rightarrow> (int \<times> int) list \<Rightarrow> square list" where
  "steps sq ds = List.map_filter (step sq) ds"

definition descending :: "square list \<Rightarrow> square list" where
  "descending xs = rev (sort xs)"

definition attacks :: "Piece option list \<Rightarrow> square \<Rightarrow> square list" where
  "attacks sqs sq =
     (case piece_at sqs sq of
        None \<Rightarrow> []
      | Some p \<Rightarrow>
          (case piece_type p of
             Pawn \<Rightarrow> steps sq (pawn_dirs (color p))
           | Knight \<Rightarrow> steps sq KNIGHT_DIRS
           | King \<Rightarrow> steps sq KING_DIRS
           | Bishop \<Rightarrow> descending (concat (map (\<lambda>d. slide sqs d 7 sq) BISHOP_DIRS))
           | Rook \<Rightarrow> descending (concat (map (\<lambda>d. slide sqs d 7 sq) ROOK_DIRS))
           | Queen \<Rightarrow> descending (concat (map (\<lambda>d. slide sqs d 7 sq) (ROOK_DIRS @ BISHOP_DIRS)))))"

fun first_piece :: "Piece option list \<Rightarrow> int \<times> int \<Rightarrow> nat \<Rightarrow> square \<Rightarrow> Piece option" where
  "first_piece sqs d 0 sq = None"
| "first_piece sqs d (Suc n) sq =
     (case step sq d of
        None \<Rightarrow> None
      | Some t \<Rightarrow> (case piece_at sqs t of None \<Rightarrow> first_piece sqs d n t | Some p \<Rightarrow> Some p))"

definition is_attacked_by :: "Piece option list \<Rightarrow> color \<Rightarrow> square \<Rightarrow> bool" where
  "is_attacked_by sqs c sq =
     (list_ex (\<lambda>t. piece_at sqs t = Some (Piece King c)) (steps sq KING_DIRS)
      \<or> list_ex (\<lambda>t. piece_at sqs t = Some (Piece Knight c)) (steps sq KNIGHT_DIRS)
      \<or> list_ex (\<lambda>d. first_piece sqs d 7 sq = Some (Piece Rook c) \<or> first_piece sqs d 7 sq = Some (Piece Queen c)) ROOK_DIRS
      \<or> list_ex (\<lambda>d. first_piece sqs d 7 sq = Some (Piece Bishop c) \<or> first_piece sqs d 7 sq = Some (Piece Queen c)) BISHOP_DIRS
      \<or> list_ex (\<lambda>t. piece_at sqs t = Some (Piece Pawn c)) (steps sq (pawn_dirs (opponent c))))"

definition SQUARES_DESC :: "square list" where
  "SQUARES_DESC = rev [0..<64]"

definition king :: "Piece option list \<Rightarrow> color \<Rightarrow> square option" where
  "king sqs c = find (\<lambda>sq. piece_at sqs sq = Some (Piece King c)) SQUARES_DESC"

definition is_check :: "'a position_scheme \<Rightarrow> bool" where
  "is_check b = (case king (squares b) (turn b) of
                   None \<Rightarrow> False
                 | Some k \<Rightarrow> is_attacked_by (squares b) (opponent (turn b)) k)"

subsection \<open>The legal moves\<close>

text \<open>
  Modelled from the spec: the legal-move set, all moves permitted from a position under
  the rules of chess. The moves are generated in the package's order: the moves of the
  pieces from the highest square down, castling, then the pawns' captures, single steps,
  double steps and en-passant captures. A generated move is legal when it does not leave
  the mover's king attacked; castling needs the right, empty squares between king and
  rook, and a king that neither stands on, passes nor reaches an attacked square.
\<close>

definition back_rank :: "color \<Rightarrow> nat" where
  "back_rank c = (if c = White then 0 else 7)"

definition clean_castling_rights :: "'a position_scheme \<Rightarrow> square list" where
  "clean_castling_rights b =
     filter (\<lambda>sq. sq \<in> set (castling_rights b) \<and>
                  ((sq = 0 \<or> sq = 7) \<and> piece_at (squares b) sq = Some (Piece Rook White)
                     \<and> piece_at (squares b) 4 = Some (Piece King White)
                   \<or> (sq = 56 \<or> sq = 63) \<and> piece_at (squares b) sq = Some (Piece Rook Black)
                     \<and> piece_at (squares b) 60 = Some (Piece King Black)))
       [63, 56, 7, 0]"

definition is_castling :: "'a position_scheme \<Rightarrow> Move \<Rightarrow> bool" where
  "is_castling b m =
     (case piece_at (squares b) (from_square m) of
        Some (Piece King c) \<Rightarrow>
          1 < \<bar>int (square_file (from_square m)) - int (square_file (to_square m))\<bar>
          \<or> piece_at (squares b) (to_square m) = Some (Piece Rook (turn b))
      | _ \<Rightarrow> False)"

definition is_en_passant :: "'a position_scheme \<Rightarrow> Move \<Rightarrow> bool" where
  "is_en_passant b m =
     (ep_square b = Some (to_square m)
      \<and> (case piece_at (squares b) (from_square m) of Some (Piece Pawn c) \<Rightarrow> True | _ \<Rightarrow> False)
      \<and> \<bar>int (to_square m) - int (from_square m)\<bar> \<in> {7, 9}
      \<and> piece_at (squares b) (to_square m) = None)"

definition is_zeroing :: "'a position_scheme \<Rightarrow> Move \<Rightarrow> bool" where
  "is_zeroing b m =
     ((case piece_at (squares b) (from_square m) of Some (Piece Pawn c) \<Rightarrow> True | _ \<Rightarrow> False)
      \<or> (case piece_at (squares b) (to_square m) of Some (Piece Pawn c) \<Rightarrow> True | _ \<Rightarrow> False)
      \<or> (case piece_at (squares b) (from_square m) of Some p \<Rightarrow> color p = opponent (turn b) | None \<Rightarrow> False)
      \<or> (case piece_at (squares b) (to_square m) of Some p \<Rightarrow> color p = opponent (turn b) | None \<Rightarrow> False)
      \<or> move_drop m = Some Pawn)"

text \<open>The squares after a move: what push does to the pieces.\<close>

definition move_pieces :: "'a position_scheme \<Rightarrow> Move \<Rightarrow> Piece option list" where
  "move_pieces b m =
     (let sqs = squares b; us = turn b; f = from_square m; t = to_square m
      in case piece_at sqs f of
           None \<Rightarrow> sqs
         | Some p \<Rightarrow>
             if is_castling b m then
               (let r = back_rank us * 8;
                    a_side = square_file t < square_file f;
                    rook_from = (if a_side then r else r + 7);
                    cleared = (sqs[f := None])[rook_from := None]
                in if a_side then (cleared[r + 2 := Some (Piece King us)])[r + 3 := Some (Piece Rook us)]
                   else (cleared[r + 6 := Some (Piece King us)])[r + 5 := Some (Piece Rook us)])
             else
               (let sqs1 = sqs[f := None];
                    sqs2 = (if is_en_passant b m
                            then sqs1[(if us = White then t - 8 else t + 8) := None] else sqs1);
                    placed = (case promotion m of None \<Rightarrow> piece_type p | Some pt \<Rightarrow> pt)
                in sqs2[t := Some (Piece placed us)]))"

definition promotions :: "square \<Rightarrow> square \<Rightarrow> Move list" where
  "promotions f t =
     (if square_rank t = 0 \<or> square_rank t = 7
      then map (\<lambda>pt. Move f t (Some pt) None) [Queen, Rook, Bishop, Knight]
      else [Move f t None None])"

definition own :: "Piece option list \<Rightarrow> color \<Rightarrow> square \<Rightarrow> bool" where
  "own sqs c sq = (case piece_at sqs sq of Some p \<Rightarrow> color p = c | None \<Rightarrow> False)"

definition is_pawn :: "Piece option list \<Rightarrow> color \<Rightarrow> square \<Rightarrow> bool" where
  "is_pawn sqs c sq = (piece_at sqs sq = Some (Piece Pawn c))"

definition is_king :: "Piece option list \<Rightarrow> square \<Rightarrow> bool" where
  "is_king sqs sq = (case piece_at sqs sq of Some p \<Rightarrow> piece_type p = King | None \<Rightarrow> False)"

definition generate_castling_moves :: "'a position_scheme \<Rightarrow> Move list" where
  "generate_castling_moves b =
     (let sqs = squares b; us = turn b; them = opponent us; r = back_rank us * 8; k = r + 4
      in concat (map (\<lambda>rook.
           if rook = r + 7 then
             (if piece_at sqs (r + 5) = None \<and> piece_at sqs (r + 6) = None
                 \<and> \<not> is_attacked_by sqs them k \<and> \<not> is_attacked_by sqs them (r + 5)
                 \<and> \<not> is_attacked_by sqs them (r + 6)
              then [Move k (r + 6) None None] else [])
           else if rook = r then
             (if piece_at sqs (r + 1) = None \<and> piece_at sqs (r + 2) = None \<and> piece_at sqs (r + 3) = None
                 \<and> \<not> is_attacked_by sqs them k \<and> \<not> is_attacked_by sqs them (r + 3)
                 \<and> \<not> is_attacked_by sqs them (r + 2)
              then [Move k (r + 2) None None] else [])
           else []) (clean_castling_rights b)))"

definition generate_pseudo_legal_ep :: "'a position_scheme \<Rightarrow> Move list" where
  "generate_pseudo_legal_ep b =
     (case ep_square b of
        None \<Rightarrow> []
      | Some ep \<Rightarrow>
          if ep = 0 \<or> piece_at (squares b) ep \<noteq> None then []
          else map (\<lambda>f. Move f ep None None)
                 (filter (\<lambda>f. is_pawn (squares b) (turn b) f
                               \<and> square_rank f = (if turn b = White then 4 else 3))
                    (descending (steps ep (pawn_dirs (opponent (turn b)))))))"

definition generate_piece_moves :: "'a position_scheme \<Rightarrow> Move list" where
  "generate_piece_moves b =
     (let sqs = squares b; us = turn b
      in concat (map (\<lambda>f. map (\<lambda>t. Move f t None None)
                              (filter (\<lambda>t. \<not> own sqs us t) (descending (attacks sqs f))))
                   (filter (\<lambda>f. own sqs us f \<and> \<not> is_pawn sqs us f) SQUARES_DESC)))"

definition generate_pawn_moves :: "'a position_scheme \<Rightarrow> Move list" where
  "generate_pawn_moves b =
     (let sqs = squares b; us = turn b; them = opponent us;
          pawns = filter (is_pawn sqs us) SQUARES_DESC;
          fwd = (\<lambda>sq. step sq (0, if us = White then 1 else -1));
          single = (\<lambda>f. case fwd f of None \<Rightarrow> None
                         | Some t \<Rightarrow> if piece_at sqs t = None then Some t else None);
          double = (\<lambda>f. case single f of None \<Rightarrow> None
                         | Some t1 \<Rightarrow> (case fwd t1 of None \<Rightarrow> None
                            | Some t \<Rightarrow> if piece_at sqs t = None
                                 \<and> (if us = White then square_rank t = 2 \<or> square_rank t = 3
                                     else square_rank t = 5 \<or> square_rank t = 4)
                               then Some t else None))
      in concat (map (\<lambda>f. concat (map (promotions f)
                                     (filter (own sqs them) (descending (steps f (pawn_dirs us))))))
                   pawns)
         @ concat (map (\<lambda>f. case single f of None \<Rightarrow> [] | Some t \<Rightarrow> promotions f t) pawns)
         @ concat (map (\<lambda>f. case double f of None \<Rightarrow> [] | Some t \<Rightarrow> [Move f t None None]) pawns)
         @ generate_pseudo_legal_ep b)"

definition generate_pseudo_legal_moves :: "'a position_scheme \<Rightarrow> Move list" where
  "generate_pseudo_legal_moves b =
     generate_piece_moves b @ generate_castling_moves b @ generate_pawn_moves b"

definition is_safe :: "'a position_scheme \<Rightarrow> square \<Rightarrow> Move \<Rightarrow> bool" where
  "is_safe b k m =
     (if from_square m = k then
        (if is_castling b m then True
         else \<not> is_attacked_by (move_pieces b m) (opponent (turn b)) (to_square m))
      else \<not> is_attacked_by (move_pieces b m) (opponent (turn b)) k)"

definition generate_legal_moves :: "'a position_scheme \<Rightarrow> Move list" where
  "generate_legal_moves b =
     (case king (squares b) (turn b) of
        None \<Rightarrow> generate_pseudo_legal_moves b
      | Some k \<Rightarrow>
          if is_attacked_by (squares b) (opponent (turn b)) k then
            filter (is_safe b k)
              (map (\<lambda>t. Move k t None None)
                 (filter (\<lambda>t. \<not> own (squares b) (turn b) t) (descending (steps k KING_DIRS)))
               @ filter (\<lambda>m. \<not> is_king (squares b) (from_square m))
                   (generate_piece_moves b @ generate_pawn_moves b))
          else filter (is_safe b k) (generate_pseudo_legal_moves b))"

text \<open>
  The test \<^verbatim>\<open>move in board.legal_moves\<close>. It does not search the generated moves: it
  checks the move given. A king's move from e1 or e8 to the square of its own rook is read
  as castling with that rook, so the test accepts castling written either way, while the
  generated moves hold it once, with the king's destination.
  The test that the move does not leave the king attacked is \<open>is_safe\<close>, on the squares
  after the move.
\<close>

definition from_chess960 :: "'a position_scheme \<Rightarrow> Move \<Rightarrow> Move" where
  "from_chess960 b m =
     (let f = from_square m; t = to_square m
      in if f = 4 \<and> is_king (squares b) 4 then
           (if t = 7 then Move 4 6 None None
            else if t = 0 then Move 4 2 None None
            else Move f t None None)
         else if f = 60 \<and> is_king (squares b) 60 then
           (if t = 63 then Move 60 62 None None
            else if t = 56 then Move 60 58 None None
            else Move f t None None)
         else Move f t None None)"

definition is_pseudo_legal :: "'a position_scheme \<Rightarrow> Move \<Rightarrow> bool" where
  "is_pseudo_legal b m =
     (let sqs = squares b; us = turn b; f = from_square m; t = to_square m
      in if f = 0 \<and> t = 0 \<and> promotion m = None \<and> move_drop m = None then False
         else if move_drop m \<noteq> None then False
         else (case piece_at sqs f of
                 None \<Rightarrow> False
               | Some p \<Rightarrow>
                   if color p \<noteq> us then False
                   else if promotion m \<noteq> None \<and> piece_type p \<noteq> Pawn then False
                   else if promotion m \<noteq> None \<and> square_rank t \<noteq> (if us = White then 7 else 0)
                     then False
                   else if piece_type p = King \<and> from_chess960 b m \<in> set (generate_castling_moves b)
                     then True
                   else if own sqs us t then False
                   else if piece_type p = Pawn then m \<in> set (generate_pawn_moves b)
                   else t \<in> set (attacks sqs f)))"

definition is_into_check :: "'a position_scheme \<Rightarrow> Move \<Rightarrow> bool" where
  "is_into_check b m =
     (case king (squares b) (turn b) of
        None \<Rightarrow> False
      | Some k \<Rightarrow> \<not> is_safe b k m)"

definition is_legal :: "'a position_scheme \<Rightarrow> Move \<Rightarrow> bool" where
  "is_legal b m = (is_pseudo_legal b m \<and> \<not> is_into_check b m)"

subsection \<open>The starting board, playing a move, mate and stalemate\<close>

text \<open>
  Modelled from the spec: \<^verbatim>\<open>chess.Board()\<close>, \<^verbatim>\<open>board.push\<close>, \<^verbatim>\<open>board.is_checkmate()\<close> and
  \<^verbatim>\<open>board.is_stalemate()\<close>. Playing a move passes the turn, moves the pieces, drops the
  castling rights of a king or rook that moved or was captured, sets the en-passant target
  after a pawn's double step, resets the half-move clock on a capture or a pawn's move and
  counts it up otherwise, and counts the move number up after Black's move. The
  handler calls it only with a move that passed the legality test, and it does not raise.
\<close>

definition STARTING_SQUARES :: "Piece option list" where
  "STARTING_SQUARES =
     map (\<lambda>pt. Some (Piece pt White)) [Rook, Knight, Bishop, Queen, King, Bishop, Knight, Rook]
     @ replicate 8 (Some (Piece Pawn White))
     @ replicate 32 None
     @ replicate 8 (Some (Piece Pawn Black))
     @ map (\<lambda>pt. Some (Piece pt Black)) [Rook, Knight, Bishop, Queen, King, Bishop, Knight, Rook]"

definition new_board :: board where
  "new_board = \<lparr>squares = STARTING_SQUARES, turn = White, castling_rights = [7, 0, 63, 56],
                ep_square = None, halfmove_clock = 0, fullmove_number = 1, move_stack = []\<rparr>"

definition has_legal_en_passant :: "'a position_scheme \<Rightarrow> bool" where
  "has_legal_en_passant b =
     (filter (\<lambda>m. case king (squares b) (turn b) of None \<Rightarrow> True | Some k \<Rightarrow> is_safe b k m)
        (generate_pseudo_legal_ep b) \<noteq> [])"

definition push :: "board \<Rightarrow> Move \<Rightarrow> board" where
  "push b m =
     (let sqs = squares b; us = turn b; f = from_square m; t = to_square m;
          moved = map_option piece_type (piece_at sqs f);
          cr = filter (\<lambda>sq. sq \<noteq> f \<and> sq \<noteq> t) (clean_castling_rights b);
          cr' = (if moved = Some King then filter (\<lambda>sq. square_rank sq \<noteq> back_rank us) cr
                 else if is_king sqs t then
                   (if us = White \<and> square_rank t = 7 then filter (\<lambda>sq. square_rank sq \<noteq> 7) cr
                    else if us = Black \<and> square_rank t = 0 then filter (\<lambda>sq. square_rank sq \<noteq> 0) cr
                    else cr)
                 else cr);
          ep' = (if moved = Some Pawn then
                   (if t = f + 16 \<and> square_rank f = 1 then Some (f + 8)
                    else if f = t + 16 \<and> square_rank f = 6 then Some (f - 8)
                    else None)
                 else None)
      in \<lparr>squares = move_pieces b m,
          turn = opponent us,
          castling_rights = cr',
          ep_square = ep',
          halfmove_clock = (if is_zeroing b m then 0 else halfmove_clock b + 1),
          fullmove_number = (if us = Black then fullmove_number b + 1 else fullmove_number b),
          move_stack = move_stack b @ [(position.truncate b, m)]\<rparr>)"

definition is_checkmate :: "'a position_scheme \<Rightarrow> bool" where
  "is_checkmate b = (if \<not> is_check b then False else generate_legal_moves b = [])"

definition is_stalemate :: "'a position_scheme \<Rightarrow> bool" where
  "is_stalemate b = (if is_check b then False else generate_legal_moves b = [])"

subsection \<open>Strings\<close>

text \<open>
  Modelled from the spec: what the package uses of the interpreter's strings, over 8-bit
  characters: \<^verbatim>\<open>str.split()\<close> on blanks, \<^verbatim>\<open>str.split(sep)\<close>, \<^verbatim>\<open>sep.join\<close>, \<^verbatim>\<open>int\<close> and \<^verbatim>\<open>str\<close>.
\<close>

definition is_space :: "char \<Rightarrow> bool" where
  "is_space c = (of_char c \<in> {9, 10, 11, 12, 13, 28, 29, 30, 31, 32, 133, 160 :: nat})"

fun split_ws :: "string \<Rightarrow> string list" where
  "split_ws [] = []"
| "split_ws (c # cs) =
     (if is_space c then split_ws cs
      else if cs = [] \<or> is_space (hd cs) then [c] # split_ws cs
      else (case split_ws cs of [] \<Rightarrow> [[c]] | w # ws \<Rightarrow> (c # w) # ws))"

fun split_on :: "char \<Rightarrow> string \<Rightarrow> string list" where
  "split_on sep [] = [[]]"
| "split_on sep (c # cs) =
     (if c = sep then [] # split_on sep cs
      else (case split_on sep cs of [] \<Rightarrow> [[c]] | w # ws \<Rightarrow> (c # w) # ws))"

fun join_with :: "string \<Rightarrow> string list \<Rightarrow> string" where
  "join_with sep [] = []"
| "join_with sep [w] = w"
| "join_with sep (w # ws) = w @ sep @ join_with sep ws"

definition is_digit :: "char \<Rightarrow> bool" where
  "is_digit c = (48 \<le> (of_char c :: nat) \<and> (of_char c :: nat) \<le> 57)"

definition digit_value :: "char \<Rightarrow> nat" where
  "digit_value c = of_char c - 48"

fun digits_value :: "nat \<Rightarrow> string \<Rightarrow> nat option" where
  "digits_value acc [] = Some acc"
| "digits_value acc (c # cs) =
     (if is_digit c then digits_value (acc * 10 + digit_value c) cs
      else if c = CHR ''_'' \<and> cs \<noteq> [] \<and> is_digit (hd cs) then digits_value acc cs
      else None)"

text \<open>
  The interpreter converts between \<^verbatim>\<open>int\<close> and \<^verbatim>\<open>str\<close> in base ten only up to a number of
  digits, 4300 unless configured otherwise, and raises \<^verbatim>\<open>ValueError\<close> beyond: \<^verbatim>\<open>int(s)\<close> on
  the digits of \<open>s\<close>, \<^verbatim>\<open>str(n)\<close> on the digits of \<open>n\<close>.
\<close>

definition MAX_STR_DIGITS :: nat where
  "MAX_STR_DIGITS = 4300"

definition py_int :: "string \<Rightarrow> int option" where
  "py_int s =
     (let neg = (s \<noteq> [] \<and> hd s = CHR ''-'');
          body = (if s \<noteq> [] \<and> (hd s = CHR ''-'' \<or> hd s = CHR ''+'') then tl s else s)
      in if body = [] \<or> \<not> is_digit (hd body) then None
         else if MAX_STR_DIGITS < length (filter is_digit body) then None
         else map_option (\<lambda>n. if neg then - int n else int n) (digits_value 0 body))"

fun str_nat :: "nat \<Rightarrow> string" where
  "str_nat n = (if n < 10 then [char_of (48 + n)] else str_nat (n div 10) @ [char_of (48 + n mod 10)])"

declare str_nat.simps [simp del]

definition py_str :: "nat \<Rightarrow> string option" where
  "py_str n = (if MAX_STR_DIGITS < length (str_nat n) then None else Some (str_nat n))"

subsection \<open>FEN\<close>

text \<open>
  Modelled from the spec: the textual encoding of a position, printed (\<^verbatim>\<open>board.fen()\<close>)
  and parsed (\<^verbatim>\<open>chess.Board(fen)\<close>). The en-passant square is printed only when a legal
  en-passant capture exists. The parser takes one to six fields separated by blanks; a
  missing field has its default (White to move, no castling rights, no en-passant square,
  clock 0, move number 1); it raises on a seventh field, on a turn other than \<^verbatim>\<open>w\<close> and
  \<^verbatim>\<open>b\<close>, on a malformed castling or en-passant field, on a counter that \<^verbatim>\<open>int\<close> does
  not read or that is negative, and on a placement that is not eight rows of eight squares.
\<close>

fun fen_row :: "nat \<Rightarrow> Piece option list \<Rightarrow> string" where
  "fen_row e [] = (if e = 0 then [] else str_nat e)"
| "fen_row e (None # ps) = fen_row (Suc e) ps"
| "fen_row e (Some p # ps) = (if e = 0 then [] else str_nat e) @ symbol p # fen_row 0 ps"

definition board_fen :: "Piece option list \<Rightarrow> string" where
  "board_fen sqs = join_with ''/'' (map (\<lambda>r. fen_row 0 (take 8 (drop (r * 8) sqs))) [7, 6, 5, 4, 3, 2, 1, 0])"

definition castling_xfen :: "'a position_scheme \<Rightarrow> string" where
  "castling_xfen b =
     (let flags = concat (map (\<lambda>c.
            case king (squares b) c of
              None \<Rightarrow> []
            | Some k \<Rightarrow>
                map (\<lambda>rook. let ch = (if square_file rook < square_file k then CHR ''q'' else CHR ''k'')
                             in if c = White then to_upper ch else ch)
                  (filter (\<lambda>sq. square_rank sq = back_rank c) (clean_castling_rights b)))
          [White, Black])
      in if flags = [] then ''-'' else flags)"

text \<open>
  \<^verbatim>\<open>board.fen()\<close>: the six fields joined by blanks. The two counters are printed with
  \<^verbatim>\<open>str\<close>, so the call raises when one of them is too long.
\<close>

definition get_fen :: "'a position_scheme \<Rightarrow> string option" where
  "get_fen b =
     (case py_str (halfmove_clock b) of
        None \<Rightarrow> None
      | Some halfmoves \<Rightarrow>
          (case py_str (fullmove_number b) of
             None \<Rightarrow> None
           | Some fullmoves \<Rightarrow>
               Some (join_with '' ''
                 [board_fen (squares b),
                  (if turn b = White then ''w'' else ''b''),
                  castling_xfen b,
                  (case ep_square b of
                     None \<Rightarrow> ''-''
                   | Some ep \<Rightarrow> if has_legal_en_passant b then square_name ep else ''-''),
                  halfmoves,
                  fullmoves])))"

fun row_squares :: "bool \<Rightarrow> bool \<Rightarrow> string \<Rightarrow> Piece option list option" where
  "row_squares pd pp [] = Some []"
| "row_squares pd pp (c # cs) =
     (if c \<in> set ''12345678'' then
        (if pd then None
         else map_option (\<lambda>r. replicate (digit_value c) None @ r) (row_squares True False cs))
      else if c = CHR ''~'' then
        (if pp then row_squares False False cs else None)
      else (case from_symbol c of
              None \<Rightarrow> None
            | Some p \<Rightarrow> map_option (\<lambda>r. Some p # r) (row_squares False True cs)))"

definition parse_row :: "string \<Rightarrow> Piece option list option" where
  "parse_row row = (case row_squares False False row of
                      None \<Rightarrow> None
                    | Some ps \<Rightarrow> if length ps = 8 then Some ps else None)"

fun those_rows :: "Piece option list option list \<Rightarrow> Piece option list list option" where
  "those_rows [] = Some []"
| "those_rows (None # rs) = None"
| "those_rows (Some r # rs) = map_option (\<lambda>rest. r # rest) (those_rows rs)"

definition set_board_fen :: "string \<Rightarrow> Piece option list option" where
  "set_board_fen s =
     (let rows = split_on (CHR ''/'') s
      in if length rows \<noteq> 8 then None
         else map_option (\<lambda>rs. concat (rev rs)) (those_rows (map parse_row rows)))"

definition castling_regex :: "string \<Rightarrow> bool" where
  "castling_regex s =
     (s = ''-'' \<or>
      (let upper = takeWhile (\<lambda>c. c \<in> set ''KQABCDEFGH'') s;
           lower = dropWhile (\<lambda>c. c \<in> set ''KQABCDEFGH'') s
       in length upper \<le> 2 \<and> length lower \<le> 2 \<and> list_all (\<lambda>c. c \<in> set ''kqabcdefgh'') lower))"

definition castling_flag :: "Piece option list \<Rightarrow> char \<Rightarrow> square list" where
  "castling_flag sqs flag =
     (let c = (if is_upper flag then White else Black);
          fl = to_lower flag;
          r = back_rank c * 8;
          rooks = filter (\<lambda>sq. piece_at sqs sq = Some (Piece Rook c)) [r ..< r + 8]
      in if fl = CHR ''q'' then
           (case king sqs c of
              None \<Rightarrow> [r]
            | Some k \<Rightarrow> if rooks = [] then [] else if hd rooks < k then [hd rooks] else [r])
         else if fl = CHR ''k'' then
           (case king sqs c of
              None \<Rightarrow> [r + 7]
            | Some k \<Rightarrow> if rooks \<noteq> [] \<and> k < last rooks then [last rooks] else [r + 7])
         else (case index_of FILE_NAMES fl of None \<Rightarrow> [] | Some f \<Rightarrow> [r + f]))"

definition set_castling_fen :: "Piece option list \<Rightarrow> string \<Rightarrow> square list" where
  "set_castling_fen sqs s = (if s = ''-'' then [] else concat (map (castling_flag sqs) s))"

definition set_fen :: "string \<Rightarrow> board option" where
  "set_fen s =
     (let parts = split_ws s
      in if parts = [] \<or> 6 < length parts then None
         else
           (let board_part = parts ! 0;
                turn_part = (if 1 < length parts then parts ! 1 else ''w'');
                castling_part = (if 2 < length parts then parts ! 2 else ''-'');
                ep_part = (if 3 < length parts then parts ! 3 else ''-'');
                halfmove_part = (if 4 < length parts then py_int (parts ! 4) else Some 0);
                fullmove_part = (if 5 < length parts then py_int (parts ! 5) else Some 1)
            in if turn_part \<noteq> ''w'' \<and> turn_part \<noteq> ''b'' then None
               else if \<not> castling_regex castling_part then None
               else if ep_part \<noteq> ''-'' \<and> index_of SQUARE_NAMES ep_part = None then None
               else (case halfmove_part of
                       None \<Rightarrow> None
                     | Some h \<Rightarrow>
                         if h < 0 then None
                         else (case fullmove_part of
                                 None \<Rightarrow> None
                               | Some n \<Rightarrow>
                                   if n < 0 then None
                                   else (case set_board_fen board_part of
                                           None \<Rightarrow> None
                                         | Some sqs \<Rightarrow>
                                             Some \<lparr>squares = sqs,
                                                   turn = (if turn_part = ''w'' then White else Black),
                                                   castling_rights = set_castling_fen sqs castling_part,
                                                   ep_square = (if ep_part = ''-'' then None
                                                                else index_of SQUARE_NAMES ep_part),
                                                   halfmove_clock = nat h,
                                                   fullmove_number = max (nat n) 1,
                                                   move_stack = []\<rparr>)))))"

subsection \<open>Moves in UCI notation\<close>

text \<open>
  Modelled from the spec: a move in coordinate notation, parsed (\<^verbatim>\<open>chess.Move.from_uci\<close>)
  and printed (\<^verbatim>\<open>move.uci()\<close>): two squares and an optional promotion letter, \<^verbatim>\<open>0000\<close> for
  the null move, a piece letter and \<^verbatim>\<open>@\<close> before the square for a drop. The parser raises
  on anything else, and on a move from a square to itself.
\<close>

definition from_uci :: "string \<Rightarrow> Move option" where
  "from_uci s =
     (if s = ''0000'' then Some (Move 0 0 None None)
      else if length s = 4 \<and> s ! 1 = CHR ''@'' then
        (case (piece_type_of_symbol (to_lower (s ! 0)), index_of SQUARE_NAMES (drop 2 s)) of
           (Some pt, Some sq) \<Rightarrow> Some (Move sq sq None (Some pt))
         | _ \<Rightarrow> None)
      else if 4 \<le> length s \<and> length s \<le> 5 then
        (case (index_of SQUARE_NAMES (take 2 s), index_of SQUARE_NAMES (take 2 (drop 2 s))) of
           (Some f, Some t) \<Rightarrow>
             if length s = 5 then
               (case piece_type_of_symbol (s ! 4) of
                  None \<Rightarrow> None
                | Some pt \<Rightarrow> if f = t then None else Some (Move f t (Some pt) None))
             else if f = t then None else Some (Move f t None None)
         | _ \<Rightarrow> None)
      else None)"

definition move_uci :: "Move \<Rightarrow> string" where
  "move_uci m =
     (case move_drop m of
        Some pt \<Rightarrow> to_upper (piece_symbol pt) # CHR ''@'' # square_name (to_square m)
      | None \<Rightarrow>
          (case promotion m of
             Some pt \<Rightarrow> square_name (from_square m) @ square_name (to_square m) @ [piece_symbol pt]
           | None \<Rightarrow>
               if from_square m = 0 \<and> to_square m = 0 then ''0000''
               else square_name (from_square m) @ square_name (to_square m)))"

subsection \<open>The end of the game\<close>

text \<open>
  Modelled from the spec: \<^verbatim>\<open>board.is_game_over()\<close>, any condition that ends the game:
  checkmate, stalemate, material with which neither side can mate, 150 half-moves without
  a capture or a pawn's move, and a position that occurs for the fifth time.
\<close>

definition pieces :: "Piece option list \<Rightarrow> (square \<times> Piece) list" where
  "pieces sqs = List.map_filter (\<lambda>sq. map_option (Pair sq) (piece_at sqs sq)) [0..<64]"

definition is_dark :: "square \<Rightarrow> bool" where
  "is_dark sq = ((square_file sq + square_rank sq) mod 2 = 0)"

definition has_insufficient_material :: "Piece option list \<Rightarrow> color \<Rightarrow> bool" where
  "has_insufficient_material sqs c =
     (let ps = pieces sqs;
          mine = filter (\<lambda>(sq, p). color p = c) ps;
          theirs = filter (\<lambda>(sq, p). color p \<noteq> c) ps;
          has = (\<lambda>pt xs. list_ex (\<lambda>(sq, p). piece_type p = pt) xs)
      in if has Pawn mine \<or> has Rook mine \<or> has Queen mine then False
         else if has Knight mine then
           length mine \<le> 2
           \<and> \<not> list_ex (\<lambda>(sq, p). piece_type p \<noteq> King \<and> piece_type p \<noteq> Queen) theirs
         else if has Bishop mine then
           (let bishops = filter (\<lambda>(sq, p). piece_type p = Bishop) ps;
                same_color = (\<not> list_ex (\<lambda>(sq, p). is_dark sq) bishops
                              \<or> \<not> list_ex (\<lambda>(sq, p). \<not> is_dark sq) bishops)
            in same_color \<and> \<not> has Pawn ps \<and> \<not> has Knight ps)
         else True)"

definition is_insufficient_material :: "'a position_scheme \<Rightarrow> bool" where
  "is_insufficient_material b =
     (has_insufficient_material (squares b) White \<and> has_insufficient_material (squares b) Black)"

definition is_seventyfive_moves :: "'a position_scheme \<Rightarrow> bool" where
  "is_seventyfive_moves b = (150 \<le> halfmove_clock b \<and> generate_legal_moves b \<noteq> [])"

definition transposition_key ::
  "'a position_scheme \<Rightarrow> Piece option list \<times> color \<times> square list \<times> square option" where
  "transposition_key b =
     (squares b, turn b, clean_castling_rights b,
      if has_legal_en_passant b then ep_square b else None)"

definition reduces_castling_rights :: "'a position_scheme \<Rightarrow> Move \<Rightarrow> bool" where
  "reduces_castling_rights b m =
     (let cr = clean_castling_rights b;
          touched = (if from_square m = to_square m then [] else [from_square m, to_square m])
      in list_ex (\<lambda>sq. sq \<in> set cr) touched
         \<or> list_ex (\<lambda>sq. square_rank sq = 0) cr
             \<and> list_ex (\<lambda>sq. piece_at (squares b) sq = Some (Piece King White)) touched
         \<or> list_ex (\<lambda>sq. square_rank sq = 7) cr
             \<and> list_ex (\<lambda>sq. piece_at (squares b) sq = Some (Piece King Black)) touched)"

definition is_irreversible :: "'a position_scheme \<Rightarrow> Move \<Rightarrow> bool" where
  "is_irreversible b m = (is_zeroing b m \<or> reduces_castling_rights b m \<or> has_legal_en_passant b)"

fun replay ::
  "Piece option list \<times> color \<times> square list \<times> square option \<Rightarrow> nat \<Rightarrow> (position \<times> Move) list \<Rightarrow> bool" where
  "replay key count [] = (count \<le> 1)"
| "replay key count ((s, m) # earlier) =
     (if count \<le> 1 then True
      else if Suc (length earlier) < count - 1 then False
      else if is_irreversible s m then False
      else replay key (if transposition_key s = key then count - 1 else count) earlier)"

definition occupied :: "Piece option list \<Rightarrow> bool list" where
  "occupied sqs = map (\<lambda>p. p \<noteq> None) sqs"

definition is_repetition :: "board \<Rightarrow> nat \<Rightarrow> bool" where
  "is_repetition b count =
     (let maybe_repetitions =
            1 + length (filter (\<lambda>(s, m). occupied (squares s) = occupied (squares b)) (move_stack b))
      in if maybe_repetitions < count then False
         else replay (transposition_key b) count (rev (move_stack b)))"

definition is_fivefold_repetition :: "board \<Rightarrow> bool" where
  "is_fivefold_repetition b = is_repetition b 5"

definition is_game_over :: "board \<Rightarrow> bool" where
  "is_game_over b =
     (is_checkmate b \<or> is_insufficient_material b \<or> generate_legal_moves b = []
      \<or> is_seventyfive_moves b \<or> is_fivefold_repetition b)"

definition STARTING_FEN :: string where
  "STARTING_FEN = ''rnbqkbnr/pppppppp/8/8/8/8/PPPPPPPP/RNBQKBNR w KQkq - 0 1''"



subsection \<open>The package as the handlers see it\<close>

text \<open>Modelled from the spec: the operations above, as the record the handlers take.\<close>

definition chess :: "(board, Move) chess_lib" where
  "chess = \<lparr>lib_Board = set_fen,
            lib_new_board = new_board,
            lib_from_uci = from_uci,
            lib_is_legal = is_legal,
            lib_legal_moves = generate_legal_moves,
            lib_push = (\<lambda>b m. Returned (push b m)),
            lib_fen = get_fen,
            lib_uci = move_uci,
            lib_is_check = is_check,
            lib_is_checkmate = is_checkmate,
            lib_is_stalemate = is_stalemate,
            lib_is_game_over = is_game_over\<rparr>"


text \<open>The twenty first moves of a game, in the order the package generates them.\<close>

definition OPENING_MOVES :: "string list" where
  "OPENING_MOVES =
     [''g1h3'', ''g1f3'', ''b1c3'', ''b1a3'', ''h2h3'', ''g2g3'', ''f2f3'', ''e2e3'', ''d2d3'',
      ''c2c3'', ''b2b3'', ''a2a3'', ''h2h4'', ''g2g4'', ''f2f4'', ''e2e4'', ''d2d4'', ''c2c4'',
      ''b2b4'', ''a2a4'']"


text \<open>
  A position with the two kings on their squares and Black to move, and its string with a
  move number of as many nines as \<^verbatim>\<open>int\<close> still reads.
\<close>

definition KINGS_SQUARES :: "Piece option list" where
  "KINGS_SQUARES = replicate 4 None @ [Some (Piece King White)] @ replicate 55 None
                   @ [Some (Piece King Black)] @ replicate 3 None"

definition KINGS_BOARD :: "nat \<Rightarrow> board" where
  "KINGS_BOARD n = \<lparr>squares = KINGS_SQUARES, turn = Black, castling_rights = [], ep_square = None,
                     halfmove_clock = 0, fullmove_number = n, move_stack = []\<rparr>"

definition NINES_FEN :: string where
  "NINES_FEN = ''4k3/8/8/8/8/8/8/4K3 b - - 0 '' @ replicate MAX_STR_DIGITS CHR ''9''"


section \<open>Evaluating the engine on the positions of the scenarios\<close>

lemma set_fen_start: "set_fen STARTING_FEN = Some new_board"
  by code_simp

lemma set_fen_invalid: "set_fen ''invalid-fen-string'' = None"
  by code_simp

lemma legal_start:
  "generate_legal_moves new_board =
     [Move 6 23 None None, Move 6 21 None None, Move 1 18 None None, Move 1 16 None None,
      Move 15 23 None None, Move 14 22 None None, Move 13 21 None None, Move 12 20 None None,
      Move 11 19 None None, Move 10 18 None None, Move 9 17 None None, Move 8 16 None None,
      Move 15 31 None None, Move 14 30 None None, Move 13 29 None None, Move 12 28 None None,
      Move 11 27 None None, Move 10 26 None None, Move 9 25 None None, Move 8 24 None None]"
  by code_simp

lemma uci_start: "map move_uci (generate_legal_moves new_board) = OPENING_MOVES"
  unfolding legal_start by code_simp

lemma fen_start: "get_fen new_board = Some STARTING_FEN"
  by code_simp

lemma check_start: "is_check new_board = False"
  by code_simp

lemma insufficient_start: "is_insufficient_material new_board = False"
  by code_simp

lemma fivefold_start: "is_fivefold_repetition new_board = False"
  by code_simp

lemma halfmove_start: "halfmove_clock new_board = 0"
  by (simp add: new_board_def)

lemma checkmate_start: "is_checkmate new_board = False"
  by (simp add: is_checkmate_def check_start)

lemma stalemate_start: "is_stalemate new_board = False"
  by (simp add: is_stalemate_def check_start legal_start)

lemma game_over_start: "is_game_over new_board = False"
  by (simp add: is_game_over_def checkmate_start insufficient_start fivefold_start
      is_seventyfive_moves_def halfmove_start legal_start)

lemma from_uci_e2e4: "from_uci ''e2e4'' = Some (Move 12 28 None None)"
  by code_simp



lemma is_legal_e2e4: "is_legal new_board (Move 12 28 None None) = True"
  by code_simp


lemma e2e4_pushed:
  "(get_fen (push new_board (Move 12 28 None None)),
    map move_uci (generate_legal_moves (push new_board (Move 12 28 None None))),
    is_check (push new_board (Move 12 28 None None)),
    is_checkmate (push new_board (Move 12 28 None None)),
    is_stalemate (push new_board (Move 12 28 None None)),
    is_game_over (push new_board (Move 12 28 None None)))
   = (Some ''rnbqkbnr/pppppppp/8/8/4P3/8/PPPP1PPP/RNBQKBNR b KQkq - 0 1'',
      [''g8h6'', ''g8f6'', ''b8c6'', ''b8a6'', ''h7h6'', ''g7g6'', ''f7f6'', ''e7e6'', ''d7d6'',
       ''c7c6'', ''b7b6'', ''a7a6'', ''h7h5'', ''g7g5'', ''f7f5'', ''e7e5'', ''d7d5'', ''c7c5'',
       ''b7b5'', ''a7a5''],
      False, False, False, False)"
  by code_simp

text \<open>
  Castling written with the rook's square: the legality test accepts \<^verbatim>\<open>e1h1\<close>, which is not
  among the generated moves, and the handler castles.
\<close>

lemma castling_by_rook_square:
  "map_option (\<lambda>b. (is_legal b (Move 4 7 None None), is_legal b (Move 4 6 None None),
                     Move 4 7 None None \<in> set (generate_legal_moves b),
                     get_fen (push b (Move 4 7 None None))))
     (set_fen ''r3k2r/8/8/8/8/8/8/R3K2R w KQkq - 0 1'')
   = Some (True, True, False, Some ''r3k2r/8/8/8/8/8/8/R4RK1 b kq - 1 1'')"
  by code_simp


section \<open>A move number too long to print\<close>

lemma split_ws_token:
  "w \<noteq> [] \<Longrightarrow> list_all (\<lambda>c. \<not> is_space c) w \<Longrightarrow> split_ws (w @ CHR '' '' # rest) = w # split_ws rest"
proof (induction w)
  case Nil
  then show ?case by simp
next
  case (Cons c w)
  have sp: "is_space CHR '' ''" by (simp add: is_space_def)
  show ?case
  proof (cases "w = []")
    case True
    with Cons.prems sp show ?thesis by simp
  next
    case False
    with Cons.prems have "\<not> is_space (hd (w @ CHR '' '' # rest))"
      by (cases w) simp_all
    with Cons False show ?thesis by simp
  qed
qed

lemma split_ws_word:
  "w \<noteq> [] \<Longrightarrow> list_all (\<lambda>c. \<not> is_space c) w \<Longrightarrow> split_ws w = [w]"
proof (induction w)
  case Nil
  then show ?case by simp
next
  case (Cons c w)
  show ?case
  proof (cases "w = []")
    case True
    with Cons.prems show ?thesis by simp
  next
    case False
    with Cons.prems have "\<not> is_space (hd w)"
      by (cases w) simp_all
    with Cons False show ?thesis by simp
  qed
qed

lemma max_str_digits_pos: "0 < MAX_STR_DIGITS"
  by (simp add: MAX_STR_DIGITS_def)

lemma nine_not_space: "\<not> is_space CHR ''9''"
  by (simp add: is_space_def)

lemma nine_digit: "is_digit CHR ''9''" "digit_value CHR ''9'' = 9"
  by (simp_all add: is_digit_def digit_value_def)

lemma split_ws_nines:
  "split_ws NINES_FEN =
     [''4k3/8/8/8/8/8/8/4K3'', ''b'', ''-'', ''-'', ''0'', replicate MAX_STR_DIGITS CHR ''9'']"
proof -
  let ?n = "replicate MAX_STR_DIGITS CHR ''9''"
  have n: "?n \<noteq> []" "list_all (\<lambda>c. \<not> is_space c) ?n"
    using max_str_digits_pos by (simp_all add: list_all_iff nine_not_space)
  have e: "NINES_FEN = ''4k3/8/8/8/8/8/8/4K3'' @ CHR '' '' # (''b'' @ CHR '' '' # (''-'' @ CHR '' '' #
             (''-'' @ CHR '' '' # (''0'' @ CHR '' '' # ?n))))"
    by (simp add: NINES_FEN_def)
  have w1: "''4k3/8/8/8/8/8/8/4K3'' \<noteq> []" "list_all (\<lambda>c. \<not> is_space c) ''4k3/8/8/8/8/8/8/4K3''"
    by (simp_all add: is_space_def)
  have w2: "''b'' \<noteq> []" "list_all (\<lambda>c. \<not> is_space c) ''b''"
    by (simp_all add: is_space_def)
  have w3: "''-'' \<noteq> []" "list_all (\<lambda>c. \<not> is_space c) ''-''"
    by (simp_all add: is_space_def)
  have w4: "''0'' \<noteq> []" "list_all (\<lambda>c. \<not> is_space c) ''0''"
    by (simp_all add: is_space_def)
  show ?thesis
    unfolding e
    by (simp only: split_ws_token [OF w1] split_ws_token [OF w2] split_ws_token [OF w3]
        split_ws_token [OF w4] split_ws_word [OF n])
qed

lemma digits_value_nines:
  "digits_value acc (replicate n CHR ''9'') = Some (acc * 10 ^ n + (10 ^ n - 1))"
proof (induction n arbitrary: acc)
  case 0
  then show ?case by simp
next
  case (Suc n)
  have "(1::nat) \<le> 10 ^ n" by simp
  then have "(acc * 10 + 9) * 10 ^ n + (10 ^ n - 1) = acc * (10 * 10 ^ n) + (10 * 10 ^ n - 1)"
    by (simp add: algebra_simps)
  with Suc show ?case
    by (simp add: nine_digit)
qed

lemma py_int_nines:
  "py_int (replicate MAX_STR_DIGITS CHR ''9'') = Some (int (10 ^ MAX_STR_DIGITS - 1))"
proof -
  obtain k where k: "MAX_STR_DIGITS = Suc k"
    using max_str_digits_pos by (cases MAX_STR_DIGITS) simp_all
  have h: "replicate MAX_STR_DIGITS CHR ''9'' \<noteq> []" "hd (replicate MAX_STR_DIGITS CHR ''9'') = CHR ''9''"
    by (simp_all add: k)
  have f: "filter is_digit (replicate MAX_STR_DIGITS CHR ''9'') = replicate MAX_STR_DIGITS CHR ''9''"
    by (simp add: nine_digit)
  show ?thesis
    by (simp add: py_int_def Let_def h f nine_digit digits_value_nines max_str_digits_pos)
qed

lemma length_str_nat_times_ten: "0 < n \<Longrightarrow> length (str_nat (10 * n)) = Suc (length (str_nat n))"
  by (subst str_nat.simps) simp

lemma length_str_nat_power: "length (str_nat (10 ^ k)) = Suc k"
proof (induction k)
  case 0
  show ?case by (subst str_nat.simps) simp
next
  case (Suc k)
  then show ?case by (simp add: length_str_nat_times_ten)
qed

lemma py_str_too_long: "py_str (10 ^ MAX_STR_DIGITS) = None"
  by (simp add: py_str_def length_str_nat_power)

lemma kings_squares: "set_board_fen ''4k3/8/8/8/8/8/8/4K3'' = Some KINGS_SQUARES"
  by code_simp

lemma py_int_zero: "py_int ''0'' = Some 0"
  by code_simp

lemma py_str_one: "py_str (Suc 0) = Some ''1''"
  by code_simp

lemma from_uci_e8e7: "from_uci ''e8e7'' = Some (Move 60 52 None None)"
  by code_simp

lemma ten_le_power: "(10::nat) \<le> 10 ^ MAX_STR_DIGITS"
proof -
  have "(10::nat) ^ 1 \<le> 10 ^ MAX_STR_DIGITS"
    using max_str_digits_pos by (intro power_increasing) simp_all
  then show ?thesis by simp
qed

lemma set_fen_nines: "set_fen NINES_FEN = Some (KINGS_BOARD (10 ^ MAX_STR_DIGITS - 1))"
proof -
  have a: "\<not> (10::int) ^ MAX_STR_DIGITS < 1"
    by (simp add: not_less)
  have "int (10 ^ MAX_STR_DIGITS - Suc 0) = 10 ^ MAX_STR_DIGITS - 1"
    using ten_le_power by (simp add: of_nat_diff)
  then have b: "nat ((10::int) ^ MAX_STR_DIGITS - 1) = 10 ^ MAX_STR_DIGITS - Suc 0"
    by (metis nat_int)
  have c: "max (10 ^ MAX_STR_DIGITS - Suc 0) (Suc 0) = 10 ^ MAX_STR_DIGITS - Suc 0"
    using ten_le_power by simp
  show ?thesis
    by (simp add: set_fen_def split_ws_nines Let_def castling_regex_def set_castling_fen_def
        py_int_zero py_int_nines kings_squares KINGS_BOARD_def a b c)
qed

lemma kings_legal: "is_legal (KINGS_BOARD n) (Move 60 52 None None) = True"
  by code_simp

lemma kings_zeroing: "is_zeroing (KINGS_BOARD n) (Move 60 52 None None) = False"
  by code_simp

lemma kings_pushed_moves:
  "map move_uci (generate_legal_moves (push (KINGS_BOARD n) (Move 60 52 None None)))
     = [''e1f2'', ''e1e2'', ''e1d2'', ''e1f1'', ''e1d1'']"
  by code_simp

lemma kings_pushed_check: "is_check (push (KINGS_BOARD n) (Move 60 52 None None)) = False"
  by code_simp

lemma kings_pushed_insufficient:
  "is_insufficient_material (push (KINGS_BOARD n) (Move 60 52 None None)) = True"
  by code_simp

lemma kings_pushed_fen:
  "get_fen (push (KINGS_BOARD (10 ^ MAX_STR_DIGITS - 1)) (Move 60 52 None None)) = None"
proof -
  have "(1::nat) \<le> 10 ^ MAX_STR_DIGITS" by simp
  then have "fullmove_number (push (KINGS_BOARD (10 ^ MAX_STR_DIGITS - 1)) (Move 60 52 None None))
          = 10 ^ MAX_STR_DIGITS"
    by (simp add: push_def Let_def KINGS_BOARD_def)
  moreover have "halfmove_clock (push (KINGS_BOARD (10 ^ MAX_STR_DIGITS - 1)) (Move 60 52 None None)) = 1"
    by (simp add: push_def Let_def kings_zeroing) (simp add: KINGS_BOARD_def)
  ultimately show ?thesis
    by (simp add: get_fen_def py_str_one py_str_too_long)
qed

lemma kings_pushed_nonempty:
  "generate_legal_moves (push (KINGS_BOARD n) (Move 60 52 None None)) \<noteq> []"
proof
  assume "generate_legal_moves (push (KINGS_BOARD n) (Move 60 52 None None)) = []"
  then have "map move_uci (generate_legal_moves (push (KINGS_BOARD n) (Move 60 52 None None))) = []"
    by (simp only: list.map)
  then show False
    by (simp only: kings_pushed_moves) simp
qed

lemma kings_pushed_flags:
  "is_checkmate (push (KINGS_BOARD n) (Move 60 52 None None)) = False"
  "is_stalemate (push (KINGS_BOARD n) (Move 60 52 None None)) = False"
  "is_game_over (push (KINGS_BOARD n) (Move 60 52 None None)) = True"
  by (simp_all add: is_checkmate_def is_stalemate_def is_game_over_def kings_pushed_check
      kings_pushed_insufficient kings_pushed_nonempty)


section \<open>The handlers and the objects\<close>

text \<open>
  A handler reads only the board it has made itself, so its response is the one the
  definitions of the first section give, whatever objects it finds.
\<close>

lemma make_move_at_response: "fst (make_move_at L req objs) = make_move L req"
  by (simp add: make_move_at_def make_move_def new_object_def final_return_at_def
      final_return_def Let_def split: option.split outcome.split)

lemma get_fen_info_at_response: "fst (get_fen_info_at L req objs) = get_fen_info L req"
  by (simp add: get_fen_info_at_def get_fen_info_def new_object_def split: option.split)

lemma reset_game_at_response: "fst (reset_game_at L objs) = reset_game L"
  by (simp add: reset_game_at_def reset_game_def new_object_def Let_def split: option.split)

lemma get_fen_info_at_objects: "take (length objs) (snd (get_fen_info_at L req objs)) = objs"
  by (simp add: get_fen_info_at_def new_object_def split: option.split)

lemma serve_append:
  "serve L (xs @ ys) objs =
     (fst (serve L xs objs) @ fst (serve L ys (snd (serve L xs objs))),
      snd (serve L ys (snd (serve L xs objs))))"
  by (induction xs arbitrary: objs) (simp_all add: split_beta Let_def)

lemma length_serve: "length (fst (serve L xs objs)) = length xs"
  by (induction xs arbitrary: objs) (simp_all add: split_beta Let_def)

lemma serve_PostFen: "fst (serve L [PostFen req] objs) = [get_fen_info L req]"
  by (simp add: split_beta get_fen_info_at_response)


section \<open>The handlers' contracts\<close>

text \<open>
  C1, as amended. When the position parses, the move parses, the legality test accepts the
  move, \<^verbatim>\<open>push\<close> returns and the board after the move can be printed, POST /move answers
  \<open>valid: true\<close> with the encoding of the board after the move, and the legal moves and
  the four flags of that board.
\<close>

theorem make_move_legal:
  assumes "lib_Board L (MoveRequest.fen req) = Some b"
    and "lib_from_uci L (move req) = Some m"
    and "lib_is_legal L b m"
    and "lib_push L b m = Returned b'"
    and "lib_fen L b' = Some new_fen"
  shows "make_move L req =
           Inr [(''fen'', JStr new_fen),
                (''valid'', JBool True),
                (''legal_moves'', JList (map (lib_uci L) (lib_legal_moves L b'))),
                (''is_check'', JBool (lib_is_check L b')),
                (''is_checkmate'', JBool (lib_is_checkmate L b')),
                (''is_stalemate'', JBool (lib_is_stalemate L b')),
                (''is_game_over'', JBool (lib_is_game_over L b'))]"
  using assms by (simp add: make_move_def)

text \<open>The opening move e2e4, from the starting position.\<close>

theorem make_move_legal_witness:
  "lib_Board chess (MoveRequest.fen \<lparr>MoveRequest.fen = STARTING_FEN, move = ''e2e4''\<rparr>) = Some new_board
   \<and> lib_from_uci chess (move \<lparr>MoveRequest.fen = STARTING_FEN, move = ''e2e4''\<rparr>) = Some (Move 12 28 None None)
   \<and> lib_is_legal chess new_board (Move 12 28 None None)
   \<and> lib_push chess new_board (Move 12 28 None None) = Returned (push new_board (Move 12 28 None None))
   \<and> lib_fen chess (push new_board (Move 12 28 None None))
       = Some ''rnbqkbnr/pppppppp/8/8/4P3/8/PPPP1PPP/RNBQKBNR b KQkq - 0 1''
   \<and> make_move chess \<lparr>MoveRequest.fen = STARTING_FEN, move = ''e2e4''\<rparr> =
       Inr [(''fen'', JStr ''rnbqkbnr/pppppppp/8/8/4P3/8/PPPP1PPP/RNBQKBNR b KQkq - 0 1''),
            (''valid'', JBool True),
            (''legal_moves'',
             JList [''g8h6'', ''g8f6'', ''b8c6'', ''b8a6'', ''h7h6'', ''g7g6'', ''f7f6'', ''e7e6'',
                    ''d7d6'', ''c7c6'', ''b7b6'', ''a7a6'', ''h7h5'', ''g7g5'', ''f7f5'', ''e7e5'',
                    ''d7d5'', ''c7c5'', ''b7b5'', ''a7a5'']),
            (''is_check'', JBool False),
            (''is_checkmate'', JBool False),
            (''is_stalemate'', JBool False),
            (''is_game_over'', JBool False)]"
proof -
  have p: "lib_Board chess (MoveRequest.fen \<lparr>MoveRequest.fen = STARTING_FEN, move = ''e2e4''\<rparr>) = Some new_board"
    by (simp add: chess_def set_fen_start)
  have u: "lib_from_uci chess (move \<lparr>MoveRequest.fen = STARTING_FEN, move = ''e2e4''\<rparr>) = Some (Move 12 28 None None)"
    by (simp add: chess_def from_uci_e2e4)
  have l: "lib_is_legal chess new_board (Move 12 28 None None)"
    by (simp add: chess_def is_legal_e2e4)
  have q: "lib_push chess new_board (Move 12 28 None None) = Returned (push new_board (Move 12 28 None None))"
    by (simp add: chess_def)
  have f: "lib_fen chess (push new_board (Move 12 28 None None))
             = Some ''rnbqkbnr/pppppppp/8/8/4P3/8/PPPP1PPP/RNBQKBNR b KQkq - 0 1''"
    using e2e4_pushed by (simp add: chess_def)
  from make_move_legal [OF p u l q f] p u l q f e2e4_pushed show ?thesis
    by (simp add: chess_def)
qed

text \<open>
  As C1 is written, with the move accepted and nothing said of printing, it fails. With a
  move number of 4300 nines and Black to move, the position parses and the king's move
  e8e7 is legal; \<^verbatim>\<open>push\<close> makes the move number one more, which \<^verbatim>\<open>str\<close> refuses to print; the
  \<^verbatim>\<open>ValueError\<close> of \<^verbatim>\<open>board.fen()\<close> is swallowed, and the answer is \<open>valid: false\<close>.
\<close>

theorem make_move_legal_unprintable:
  "lib_Board chess NINES_FEN = Some (KINGS_BOARD (10 ^ MAX_STR_DIGITS - 1))
   \<and> lib_from_uci chess ''e8e7'' = Some (Move 60 52 None None)
   \<and> lib_is_legal chess (KINGS_BOARD (10 ^ MAX_STR_DIGITS - 1)) (Move 60 52 None None)
   \<and> make_move chess \<lparr>MoveRequest.fen = NINES_FEN, move = ''e8e7''\<rparr> =
       Inr [(''fen'', JStr NINES_FEN),
            (''valid'', JBool False),
            (''legal_moves'', JList [''e1f2'', ''e1e2'', ''e1d2'', ''e1f1'', ''e1d1'']),
            (''is_check'', JBool False),
            (''is_checkmate'', JBool False),
            (''is_stalemate'', JBool False),
            (''is_game_over'', JBool True)]"
  using kings_pushed_fen
  by (simp add: make_move_def final_return_def chess_def set_fen_nines from_uci_e8e7 kings_legal
      kings_pushed_moves kings_pushed_check kings_pushed_flags)



text \<open>
  C3. When the position does not parse, POST /move has no response body: the exception of
  \<^verbatim>\<open>chess.Board\<close>, raised before the \<^verbatim>\<open>try\<close>, leaves the handler.
\<close>

theorem make_move_unparseable_position:
  assumes "lib_Board L (MoveRequest.fen req) = None"
  shows "make_move L req = Inl ValueError \<and> (\<forall>body. make_move L req \<noteq> Inr body)"
  using assms by (simp add: make_move_def)

theorem make_move_unparseable_position_witness:
  "lib_Board chess (MoveRequest.fen \<lparr>MoveRequest.fen = ''invalid-fen-string'', move = ''e2e4''\<rparr>) = None
   \<and> make_move chess \<lparr>MoveRequest.fen = ''invalid-fen-string'', move = ''e2e4''\<rparr> = Inl ValueError
   \<and> (\<forall>body. make_move chess \<lparr>MoveRequest.fen = ''invalid-fen-string'', move = ''e2e4''\<rparr> \<noteq> Inr body)"
proof -
  have p: "lib_Board chess (MoveRequest.fen \<lparr>MoveRequest.fen = ''invalid-fen-string'', move = ''e2e4''\<rparr>) = None"
    by (simp add: chess_def set_fen_invalid)
  from make_move_unparseable_position [OF p] p show ?thesis
    by simp
qed

text \<open>
  C4. POST /fen answers the two-key body \<open>{valid: false, error: "Invalid FEN"}\<close> when the
  position does not parse, and no exception leaves the handler; when the position parses it
  answers \<open>valid: true\<close> with the legal moves and the four flags of the parsed board.
\<close>

theorem get_fen_info_cases:
  "(lib_Board L (FenRequest.fen req) = None \<longrightarrow>
      get_fen_info L req = Inr [(''valid'', JBool False), (''error'', JStr ''Invalid FEN'')])
   \<and> (\<forall>b. lib_Board L (FenRequest.fen req) = Some b \<longrightarrow>
      get_fen_info L req =
        Inr [(''valid'', JBool True),
             (''legal_moves'', JList (map (lib_uci L) (lib_legal_moves L b))),
             (''is_check'', JBool (lib_is_check L b)),
             (''is_checkmate'', JBool (lib_is_checkmate L b)),
             (''is_stalemate'', JBool (lib_is_stalemate L b)),
             (''is_game_over'', JBool (lib_is_game_over L b))])
   \<and> (\<exists>body. get_fen_info L req = Inr body)"
  by (simp add: get_fen_info_def split: option.split)

theorem get_fen_info_cases_witness:
  "lib_Board chess (FenRequest.fen \<lparr>FenRequest.fen = ''invalid-fen-string''\<rparr>) = None
   \<and> get_fen_info chess \<lparr>FenRequest.fen = ''invalid-fen-string''\<rparr> =
       Inr [(''valid'', JBool False), (''error'', JStr ''Invalid FEN'')]
   \<and> lib_Board chess (FenRequest.fen \<lparr>FenRequest.fen = STARTING_FEN\<rparr>) = Some new_board
   \<and> get_fen_info chess \<lparr>FenRequest.fen = STARTING_FEN\<rparr> =
       Inr [(''valid'', JBool True), (''legal_moves'', JList OPENING_MOVES),
            (''is_check'', JBool False), (''is_checkmate'', JBool False),
            (''is_stalemate'', JBool False), (''is_game_over'', JBool False)]"
proof -
  have p1: "lib_Board chess (FenRequest.fen \<lparr>FenRequest.fen = ''invalid-fen-string''\<rparr>) = None"
    by (simp add: chess_def set_fen_invalid)
  have p2: "lib_Board chess (FenRequest.fen \<lparr>FenRequest.fen = STARTING_FEN\<rparr>) = Some new_board"
    by (simp add: chess_def set_fen_start)
  from get_fen_info_cases [of chess "\<lparr>FenRequest.fen = ''invalid-fen-string''\<rparr>"] p1
  have r1: "get_fen_info chess \<lparr>FenRequest.fen = ''invalid-fen-string''\<rparr> =
              Inr [(''valid'', JBool False), (''error'', JStr ''Invalid FEN'')]"
    by blast
  from get_fen_info_cases [of chess "\<lparr>FenRequest.fen = STARTING_FEN\<rparr>"] p2
  have r2: "get_fen_info chess \<lparr>FenRequest.fen = STARTING_FEN\<rparr> =
              Inr [(''valid'', JBool True),
                   (''legal_moves'', JList (map (lib_uci chess) (lib_legal_moves chess new_board))),
                   (''is_check'', JBool (lib_is_check chess new_board)),
                   (''is_checkmate'', JBool (lib_is_checkmate chess new_board)),
                   (''is_stalemate'', JBool (lib_is_stalemate chess new_board)),
                   (''is_game_over'', JBool (lib_is_game_over chess new_board))]"
    by blast
  from r1 r2 p1 p2 show ?thesis
    by (simp add: chess_def uci_start check_start checkmate_start stalemate_start game_over_start)
qed

text \<open>
  C5. GET /reset does not fail. Its body has the encoding of the starting position, the
  twenty opening moves, which are the legal moves of the position that encoding parses to,
  and four false flags.
\<close>

theorem reset_game_start:
  "reset_game chess =
     Inr [(''fen'', JStr STARTING_FEN),
          (''legal_moves'', JList OPENING_MOVES),
          (''is_check'', JBool False),
          (''is_checkmate'', JBool False),
          (''is_stalemate'', JBool False),
          (''is_game_over'', JBool False)]
   \<and> length OPENING_MOVES = 20
   \<and> distinct OPENING_MOVES
   \<and> map_option (\<lambda>b. map (lib_uci chess) (lib_legal_moves chess b)) (lib_Board chess STARTING_FEN)
       = Some OPENING_MOVES"
  by (simp add: reset_game_def chess_def fen_start uci_start set_fen_start)
     (simp add: OPENING_MOVES_def)

text \<open>
  C7. In the position after 1. f3 e5 2. g4, the queen's move d8h4 is accepted and mates:
  POST /move answers the position of the spec's scenario, \<open>is_checkmate: true\<close>,
  \<open>is_game_over: true\<close> and no legal move.
\<close>

theorem fools_mate:
  "make_move chess \<lparr>MoveRequest.fen = ''rnbqkbnr/pppp1ppp/8/4p3/6P1/5P2/PPPPP2P/RNBQKBNR b KQkq - 0 2'',
                     move = ''d8h4''\<rparr> =
     Inr [(''fen'', JStr ''rnb1kbnr/pppp1ppp/8/4p3/6Pq/5P2/PPPPP2P/RNBQKBNR w KQkq - 1 3''),
          (''valid'', JBool True),
          (''legal_moves'', JList []),
          (''is_check'', JBool True),
          (''is_checkmate'', JBool True),
          (''is_stalemate'', JBool False),
          (''is_game_over'', JBool True)]"
  by code_simp

text \<open>
  C8. POST /fen carries nothing from one call to the next. Its response does not depend on
  the objects it finds; so in any sequence of requests, served one after the other from any
  objects, two requests with the same position get the same response, the one the handler
  computes from that position. And the call leaves the objects it found as they were.
\<close>

theorem get_fen_info_idempotent:
  "fst (get_fen_info_at L req objs) = fst (get_fen_info_at L req objs')
   \<and> fst (serve L (before @ [PostFen req] @ between @ [PostFen req]) objs) ! length before
       = get_fen_info L req
   \<and> last (fst (serve L (before @ [PostFen req] @ between @ [PostFen req]) objs))
       = get_fen_info L req
   \<and> take (length objs) (snd (get_fen_info_at L req objs)) = objs"
proof -
  have first: "fst (serve L (before @ [PostFen req] @ between @ [PostFen req]) objs) ! length before
                 = get_fen_info L req"
    by (simp add: serve_append [of L before] length_serve nth_append split_beta
        get_fen_info_at_response)
  have "before @ [PostFen req] @ between @ [PostFen req]
          = (before @ [PostFen req] @ between) @ [PostFen req]"
    by simp
  then have second: "last (fst (serve L (before @ [PostFen req] @ between @ [PostFen req]) objs))
                 = get_fen_info L req"
    by (simp only: serve_append [of L "before @ [PostFen req] @ between"] serve_PostFen fst_conv)
       simp
  from first second show ?thesis
    by (simp add: get_fen_info_at_response get_fen_info_at_objects)
qed

text \<open>
  C10. The four literal \<^verbatim>\<open>False\<close> of GET /reset are what the four queries answer on the
  board the handler has just built: the handler and the one that asks the board give the
  same response.
\<close>

theorem reset_game_flags_as_computed:
  "reset_game chess = reset_game_computed chess
   \<and> lib_is_check chess (lib_new_board chess) = False
   \<and> lib_is_checkmate chess (lib_new_board chess) = False
   \<and> lib_is_stalemate chess (lib_new_board chess) = False
   \<and> lib_is_game_over chess (lib_new_board chess) = False"
  by (simp add: reset_game_def reset_game_computed_def chess_def fen_start check_start
      checkmate_start stalemate_start game_over_start)

end
